theory Spec2Isabelle
  imports Complex_Main
begin

section \<open>Configuration (src/app.py, lines 24-26)\<close>

text \<open>
  \<open>SIMILARITY_THRESHOLD = 0.85\<close> is a Python float: the double nearest to \<open>0.85\<close>, which is
  the rational below and lies a little under \<open>85/100\<close>. A score in single precision
  compares with it as with the single nearest to \<open>0.85\<close>, since no single lies between the
  two.
\<close>

definition SIMILARITY_THRESHOLD :: real where
  "SIMILARITY_THRESHOLD = 7656119366529843 / 9007199254740992"

lemma threshold_value:
  "SIMILARITY_THRESHOLD < 85 / 100" "85 / 100 - SIMILARITY_THRESHOLD < 1 / 10 ^ 16"
  by (simp_all add: SIMILARITY_THRESHOLD_def)

text \<open>
  The two caps are the literal \<open>10\<close> in the source (lines 155 and 162); the
  specification calls them \<open>MAX_REFERENCE_SAMPLES\<close> and \<open>MAX_SPEAKERS\<close>.
\<close>

definition MAX_REFERENCE_SAMPLES :: nat where
  "MAX_REFERENCE_SAMPLES = 10"

definition MAX_SPEAKERS :: nat where
  "MAX_SPEAKERS = 10"

section \<open>Floats, numpy and exceptions\<close>

text \<open>
  The value of a float: a real number, an infinity or \<open>nan\<close>. Python's comparisons of
  floats are exact; every comparison with \<open>nan\<close> is false.
\<close>

datatype pyfloat = Num real | PInf | NInf | NaN

fun py_gt :: "pyfloat \<Rightarrow> pyfloat \<Rightarrow> bool" where
  "py_gt NaN y = False"
| "py_gt x NaN = False"
| "py_gt x PInf = False"
| "py_gt PInf y = True"
| "py_gt NInf y = False"
| "py_gt (Num x) NInf = True"
| "py_gt (Num x) (Num y) = (x > y)"

fun py_ge :: "pyfloat \<Rightarrow> pyfloat \<Rightarrow> bool" where
  "py_ge NaN y = False"
| "py_ge x NaN = False"
| "py_ge PInf y = True"
| "py_ge x NInf = True"
| "py_ge x PInf = False"
| "py_ge NInf (Num y) = False"
| "py_ge (Num x) (Num y) = (x \<ge> y)"

datatype error = ValueError | KeyError | External string

text \<open>
  numpy is not part of the repository, and its arithmetic rounds: the functions that
  \<open>detect_speaker\<close> calls on embeddings and floats are parameters of the model, and every
  theorem about \<open>detect_speaker\<close> holds for whatever they compute. An embedding is a value
  of the type \<open>'e\<close>, an array that only these functions look into.
  \<^item> \<open>np_dot\<close> is \<open>np.dot\<close>, which raises \<open>ValueError\<close> on arrays whose shapes do not fit;
  \<^item> \<open>np_linalg_norm\<close> is \<open>np.linalg.norm\<close>;
  \<^item> \<open>float_mul\<close> and \<open>float_div\<close> are \<open>*\<close> and \<open>/\<close> on numpy's float scalars, which
    warn and return an infinity or \<open>nan\<close> where Python's own floats would raise;
  \<^item> \<open>np_mean\<close> is \<open>np.mean\<close> on a list of such scalars.
\<close>

record 'e numpy =
  np_dot :: "'e \<Rightarrow> 'e \<Rightarrow> error + pyfloat"
  np_linalg_norm :: "'e \<Rightarrow> pyfloat"
  float_mul :: "pyfloat \<Rightarrow> pyfloat \<Rightarrow> pyfloat"
  float_div :: "pyfloat \<Rightarrow> pyfloat \<Rightarrow> pyfloat"
  np_mean :: "pyfloat list \<Rightarrow> pyfloat"

text \<open>
  Line 143: \<open>np.dot(embedding, emb) / (np.linalg.norm(embedding) * np.linalg.norm(emb))\<close>.
\<close>

definition cosine :: "'e numpy \<Rightarrow> 'e \<Rightarrow> 'e \<Rightarrow> error + pyfloat" where
  "cosine np a b =
     (case np_dot np a b of
        Inl err \<Rightarrow> Inl err
      | Inr d \<Rightarrow>
          Inr (float_div np d (float_mul np (np_linalg_norm np a) (np_linalg_norm np b))))"

text \<open>
  \<open>chr\<close> raises \<open>ValueError\<close> from \<open>0x110000\<close> on. A \<open>char\<close> of HOL holds one byte,
  so the character returned is Python's for code points below 256; the source uses the
  label only while the registry holds fewer than ten identities.
\<close>

definition py_ord_A :: nat where
  "py_ord_A = 65"

definition py_chr :: "nat \<Rightarrow> error + string" where
  "py_chr n = (if n < 1114112 then Inr [char_of n] else Inl ValueError)"

section \<open>The speaker registry (lines 31-32)\<close>

text \<open>
  \<open>speaker_embeddings\<close> is a Python dictionary, iterated in insertion order by
  \<open>detect_speaker\<close>: an association list with distinct keys.
\<close>

type_synonym 'e registry = "(string \<times> 'e list) list"

record 'e state =
  speaker_embeddings :: "'e registry"
  current_speaker :: string

definition init_state :: "'e state" where
  "init_state = \<lparr>speaker_embeddings = [], current_speaker = ''A''\<rparr>"

fun dict_get :: "('k \<times> 'v) list \<Rightarrow> 'k \<Rightarrow> 'v option" where
  "dict_get [] k = None"
| "dict_get ((k', v) # d) k = (if k' = k then Some v else dict_get d k)"

text \<open>\<open>d[k] = v\<close>: an existing key keeps its place, a new key goes to the end.\<close>

fun dict_set :: "('k \<times> 'v) list \<Rightarrow> 'k \<Rightarrow> 'v \<Rightarrow> ('k \<times> 'v) list" where
  "dict_set [] k v = [(k, v)]"
| "dict_set ((k', v') # d) k v =
     (if k' = k then (k, v) # d else (k', v') # dict_set d k v)"

section \<open>Speaker attribution (lines 125-175)\<close>

text \<open>Lines 143-144: the list comprehension; the first exception ends it.\<close>

fun similarities :: "'e numpy \<Rightarrow> 'e \<Rightarrow> 'e list \<Rightarrow> error + pyfloat list" where
  "similarities np e [] = Inr []"
| "similarities np e (emb # embs) =
     (case cosine np e emb of
        Inl err \<Rightarrow> Inl err
      | Inr c \<Rightarrow>
          (case similarities np e embs of
             Inl err \<Rightarrow> Inl err
           | Inr cs \<Rightarrow> Inr (c # cs)))"

text \<open>Lines 143-145: \<open>avg_similarity\<close> of one identity, the mean of the cosine similarities.\<close>

definition avg_similarity :: "'e numpy \<Rightarrow> 'e \<Rightarrow> 'e list \<Rightarrow> error + pyfloat" where
  "avg_similarity np e embeddings_list =
     (case similarities np e embeddings_list of
        Inl err \<Rightarrow> Inl err
      | Inr sims \<Rightarrow> Inr (np_mean np sims))"

text \<open>
  Lines 142-150: the loop over \<open>speaker_embeddings.items()\<close>, with the pair
  \<open>(best_speaker, best_similarity)\<close> as its accumulator.
\<close>

fun best_match ::
  "'e numpy \<Rightarrow> 'e \<Rightarrow> 'e registry \<Rightarrow> string option \<times> pyfloat
     \<Rightarrow> error + (string option \<times> pyfloat)"
where
  "best_match np e [] acc = Inr acc"
| "best_match np e ((speaker_id, embeddings_list) # rest) (best_speaker, best_similarity) =
     (case avg_similarity np e embeddings_list of
        Inl err \<Rightarrow> Inl err
      | Inr avg \<Rightarrow>
          if py_gt avg best_similarity
          then best_match np e rest (Some speaker_id, avg)
          else best_match np e rest (best_speaker, best_similarity))"

definition detect_speaker ::
  "'e numpy \<Rightarrow> 'e option \<Rightarrow> 'e state \<Rightarrow> error + (string option \<times> 'e state)"
where
  "detect_speaker np embedding s =
     (case embedding of
        None \<Rightarrow> Inr (Some (current_speaker s), s)
      | Some e \<Rightarrow>
          if speaker_embeddings s = [] then
            Inr (Some ''A'',
                 s\<lparr>speaker_embeddings := dict_set (speaker_embeddings s) ''A'' [e],
                   current_speaker := ''A''\<rparr>)
          else
            (case best_match np e (speaker_embeddings s) (None, Num (- 1)) of
               Inl err \<Rightarrow> Inl err
             | Inr (best_speaker, best_similarity) \<Rightarrow>
                 if py_ge best_similarity (Num SIMILARITY_THRESHOLD) then
                   (case best_speaker of
                      None \<Rightarrow> Inl KeyError
                    | Some b \<Rightarrow>
                        (case dict_get (speaker_embeddings s) b of
                           None \<Rightarrow> Inl KeyError
                         | Some refs \<Rightarrow>
                             Inr (Some b,
                                  s\<lparr>speaker_embeddings :=
                                      (if length refs < 10
                                       then dict_set (speaker_embeddings s) b (refs @ [e])
                                       else speaker_embeddings s),
                                    current_speaker := b\<rparr>)))
                 else
                   (case py_chr (py_ord_A + length (speaker_embeddings s)) of
                      Inl err \<Rightarrow> Inl err
                    | Inr new_speaker \<Rightarrow>
                        if length (speaker_embeddings s) < 10 then
                          Inr (Some new_speaker,
                               s\<lparr>speaker_embeddings :=
                                   dict_set (speaker_embeddings s) new_speaker [e],
                                 current_speaker := new_speaker\<rparr>)
                        else Inr (best_speaker, s))))"

definition reset_speakers :: "'e state \<Rightarrow> 'e state" where
  "reset_speakers s = s\<lparr>speaker_embeddings := [], current_speaker := ''A''\<rparr>"

section \<open>Immediate properties of attribution\<close>

text \<open>
  Claim C5. With no embedding, \<open>detect_speaker\<close> returns the current speaker as it was
  before the call and leaves the registry and the current-speaker pointer as they were.
\<close>

theorem detect_speaker_None:
  "detect_speaker np None s = Inr (Some (current_speaker s), s)"
  by (simp add: detect_speaker_def)

text \<open>
  Claim C6. The first call with an embedding on an empty registry returns the label A,
  leaves exactly one identity, whose reference set holds exactly that embedding, and
  makes A the current speaker.
\<close>

theorem detect_speaker_first:
  "detect_speaker np (Some e) (s\<lparr>speaker_embeddings := []\<rparr>) =
     Inr (Some ''A'', \<lparr>speaker_embeddings = [(''A'', [e])], current_speaker = ''A''\<rparr>)"
  by (simp add: detect_speaker_def)

text \<open>
  Claim C7. \<open>reset_speakers\<close> empties the registry and puts the current speaker back to
  A, which is the state the module starts in; so after a reset, from whatever state,
  \<open>detect_speaker\<close> returns what it returns on a fresh registry and leaves the same state.
\<close>

theorem reset_then_attribute:
  "speaker_embeddings (reset_speakers s) = []
   \<and> current_speaker (reset_speakers s) = ''A''
   \<and> reset_speakers s = init_state
   \<and> detect_speaker np x (reset_speakers s) = detect_speaker np x init_state"
proof -
  have fresh: "reset_speakers s = init_state"
    by (cases s) (simp add: reset_speakers_def init_state_def)
  then show ?thesis
    by (simp add: init_state_def)
qed

section \<open>The scan for the best match\<close>

text \<open>
  Two conditions on the identities \<open>ps\<close> of a registry, in the terms of the loop:
  every mean similarity is computed without an exception and none of them is
  \<open>\<ge> x\<close> (respectively \<open>> x\<close>). A mean that is \<open>nan\<close> satisfies both, as it does
  in the source's comparisons.
\<close>

definition all_below :: "'e numpy \<Rightarrow> 'e \<Rightarrow> 'e registry \<Rightarrow> pyfloat \<Rightarrow> bool" where
  "all_below np e ps x =
     (\<forall>p \<in> set ps. \<exists>y. avg_similarity np e (snd p) = Inr y \<and> \<not> py_ge y x)"

definition none_above :: "'e numpy \<Rightarrow> 'e \<Rightarrow> 'e registry \<Rightarrow> pyfloat \<Rightarrow> bool" where
  "none_above np e ps x =
     (\<forall>p \<in> set ps. \<exists>y. avg_similarity np e (snd p) = Inr y \<and> \<not> py_gt y x)"

lemma py_gt_Num: "py_gt y (Num m) = (y = PInf \<or> (\<exists>v. y = Num v \<and> v > m))"
  by (cases y) auto

lemma py_ge_Num: "py_ge y (Num m) = (y = PInf \<or> (\<exists>v. y = Num v \<and> v \<ge> m))"
  by (cases y) auto

lemma py_gt_between: "py_gt y m \<Longrightarrow> \<not> py_ge y x \<Longrightarrow> py_gt x m \<Longrightarrow> py_gt x y"
  by (cases x; cases y; cases m) auto


lemma best_match_none:
  "none_above np e ps m \<Longrightarrow> best_match np e ps (bs, m) = Inr (bs, m)"
  by (induction ps) (auto simp: none_above_def)

lemma best_match_winner:
  assumes "all_below np e pre x" and "avg_similarity np e refs = Inr x"
    and "none_above np e post x" and "py_gt x m"
  shows "best_match np e (pre @ (b, refs) # post) (bs, m) = Inr (Some b, x)"
  using assms
proof (induction pre arbitrary: bs m)
  case Nil
  then show ?case by (simp add: best_match_none)
next
  case (Cons p pre)
  obtain l r where p: "p = (l, r)" by (cases p)
  from Cons.prems(1) obtain y where y: "avg_similarity np e r = Inr y" "\<not> py_ge y x"
    by (auto simp: all_below_def p)
  have rest: "all_below np e pre x" using Cons.prems(1) by (simp add: all_below_def)
  show ?case
  proof (cases "py_gt y m")
    case True
    with y Cons.prems(4) have "py_gt x y" by (blast intro: py_gt_between)
    from Cons.IH [OF rest Cons.prems(2) Cons.prems(3) this]
    show ?thesis using True y by (simp add: p)
  next
    case False
    from Cons.IH [OF rest Cons.prems(2) Cons.prems(3) Cons.prems(4)]
    show ?thesis using False y by (simp add: p)
  qed
qed

lemma best_match_below:
  "all_below np e ps t \<Longrightarrow> \<not> py_ge m t \<Longrightarrow>
   \<exists>bs' m'. best_match np e ps (bs, m) = Inr (bs', m') \<and> \<not> py_ge m' t"
proof (induction ps arbitrary: bs m)
  case Nil
  then show ?case by simp
next
  case (Cons p ps)
  obtain l r where p: "p = (l, r)" by (cases p)
  from Cons.prems(1) obtain y where y: "avg_similarity np e r = Inr y" "\<not> py_ge y t"
    by (auto simp: all_below_def p)
  have rest: "all_below np e ps t" using Cons.prems(1) by (simp add: all_below_def)
  show ?case
  proof (cases "py_gt y m")
    case True
    from Cons.IH [OF rest y(2), of "Some l"]
    show ?thesis using True y by (simp add: p)
  next
    case False
    from Cons.IH [OF rest Cons.prems(2), of bs]
    show ?thesis using False y by (simp add: p)
  qed
qed

section \<open>Facts about the dictionary operations\<close>



lemma dict_set_new:
  "k \<notin> fst ` set d \<Longrightarrow> dict_set d k v = d @ [(k, v)]"
  by (induction d) auto

lemma dict_get_set:
  "dict_get (dict_set d k v) k' = (if k' = k then Some v else dict_get d k')"
  by (induction d) auto

lemma dict_get_key: "dict_get d k = Some v \<Longrightarrow> k \<in> fst ` set d"
  by (induction d) (auto split: if_splits)

lemma dict_set_keys: "dict_get d k = Some v0 \<Longrightarrow> map fst (dict_set d k v) = map fst d"
  by (induction d) (auto split: if_splits)

lemma dict_set_all: "list_all P d \<Longrightarrow> P (k, v) \<Longrightarrow> list_all P (dict_set d k v)"
  by (induction d) auto

section \<open>Attribution to an existing identity\<close>

lemma threshold_gt: "- 1 < SIMILARITY_THRESHOLD"
  by (simp add: SIMILARITY_THRESHOLD_def)


section \<open>Labels and reachable states\<close>

definition nth_label :: "nat \<Rightarrow> string" where
  "nth_label n = [char_of (py_ord_A + n)]"

text \<open>
  The states that calls of \<open>detect_speaker\<close> and \<open>reset_speakers\<close> lead to from the initial
  one. A call of \<open>detect_speaker\<close> that raises does so before its first assignment and
  leaves the state.
\<close>

inductive reachable :: "'e numpy \<Rightarrow> 'e state \<Rightarrow> bool" for np :: "'e numpy" where
  start: "reachable np init_state"
| attribute:
    "reachable np s \<Longrightarrow> detect_speaker np embedding s = Inr (label, s') \<Longrightarrow> reachable np s'"
| reset: "reachable np s \<Longrightarrow> reachable np (reset_speakers s)"

definition sequential_labels :: "'e registry \<Rightarrow> bool" where
  "sequential_labels reg = (map fst reg = map nth_label [0..<length reg])"

definition registry_inv :: "'e state \<Rightarrow> bool" where
  "registry_inv s =
     (sequential_labels (speaker_embeddings s)
      \<and> length (speaker_embeddings s) \<le> MAX_SPEAKERS
      \<and> list_all (\<lambda>p. snd p \<noteq> [] \<and> length (snd p) \<le> MAX_REFERENCE_SAMPLES) (speaker_embeddings s))"

lemma py_chr_label: "n < 10 \<Longrightarrow> py_chr (py_ord_A + n) = Inr (nth_label n)"
  by (simp add: py_chr_def nth_label_def py_ord_A_def)

lemma nth_label_0: "nth_label 0 = ''A''"
  by code_simp

lemma nth_label_inj: "i < 191 \<Longrightarrow> j < 191 \<Longrightarrow> nth_label i = nth_label j \<Longrightarrow> i = j"
  by (simp add: nth_label_def py_ord_A_def char_of_eq_iff take_bit_nat_eq_self)

lemma nth_label_fresh:
  assumes "sequential_labels reg" and "length reg < 191"
  shows "nth_label (length reg) \<notin> fst ` set reg"
proof
  assume "nth_label (length reg) \<in> fst ` set reg"
  then have "nth_label (length reg) \<in> set (map nth_label [0..<length reg])"
    using assms(1) by (metis sequential_labels_def set_map)
  then obtain i where "i < length reg" "nth_label i = nth_label (length reg)"
    by auto
  with assms(2) show False
    using nth_label_inj [of i "length reg"] by simp
qed

lemma detect_speaker_branches:
  assumes "detect_speaker np x s = Inr (r, s')"
  shows "s' = s
    \<or> (\<exists>e. speaker_embeddings s = [] \<and> r = Some ''A''
          \<and> s' = s\<lparr>speaker_embeddings := [(''A'', [e])], current_speaker := ''A''\<rparr>)
    \<or> (\<exists>b refs e. dict_get (speaker_embeddings s) b = Some refs \<and> length refs < 10
          \<and> r = Some b
          \<and> s' = s\<lparr>speaker_embeddings := dict_set (speaker_embeddings s) b (refs @ [e]),
                   current_speaker := b\<rparr>)
    \<or> (\<exists>b refs. dict_get (speaker_embeddings s) b = Some refs \<and> r = Some b
          \<and> s' = s\<lparr>current_speaker := b\<rparr>)
    \<or> (\<exists>e. speaker_embeddings s \<noteq> [] \<and> length (speaker_embeddings s) < 10
          \<and> r = Some (nth_label (length (speaker_embeddings s)))
          \<and> s' = s\<lparr>speaker_embeddings :=
                      dict_set (speaker_embeddings s) (nth_label (length (speaker_embeddings s))) [e],
                   current_speaker := nth_label (length (speaker_embeddings s))\<rparr>)"
  using assms
  by (auto simp: detect_speaker_def py_chr_label
      split: option.splits if_splits sum.splits prod.splits)

lemma sequential_labels_snoc:
  "sequential_labels reg \<Longrightarrow> sequential_labels (reg @ [(nth_label (length reg), v)])"
  by (simp add: sequential_labels_def)

lemma registry_inv_step:
  assumes inv: "registry_inv s" and call: "detect_speaker np x s = Inr (r, s')"
  shows "registry_inv s'"
proof -
  let ?reg = "speaker_embeddings s"
  from inv have seq: "sequential_labels ?reg" and len: "length ?reg \<le> 10"
    and refs: "list_all (\<lambda>p. snd p \<noteq> [] \<and> length (snd p) \<le> 10) ?reg"
    by (simp_all add: registry_inv_def MAX_SPEAKERS_def MAX_REFERENCE_SAMPLES_def)
  from detect_speaker_branches [OF call]
  consider (same) "speaker_embeddings s' = ?reg"
    | (first) e where "?reg = []" "speaker_embeddings s' = [(''A'', [e])]"
    | (more) b old e where "dict_get ?reg b = Some old" "length old < 10"
        "speaker_embeddings s' = dict_set ?reg b (old @ [e])"
    | (new) e where "length ?reg < 10"
        "speaker_embeddings s' = dict_set ?reg (nth_label (length ?reg)) [e]"
    by auto
  then show ?thesis
  proof cases
    case same
    with inv show ?thesis by (simp add: registry_inv_def)
  next
    case first
    then show ?thesis
      by (simp add: registry_inv_def sequential_labels_def nth_label_0
          MAX_SPEAKERS_def MAX_REFERENCE_SAMPLES_def)
  next
    case more
    have keys: "map fst (speaker_embeddings s') = map fst ?reg"
      using more by (simp add: dict_set_keys)
    then have "length (speaker_embeddings s') = length ?reg"
      by (metis length_map)
    moreover have "list_all (\<lambda>p. snd p \<noteq> [] \<and> length (snd p) \<le> 10) (speaker_embeddings s')"
      using more refs by (simp add: dict_set_all)
    ultimately show ?thesis
      using seq len keys
      by (simp add: registry_inv_def sequential_labels_def
          MAX_SPEAKERS_def MAX_REFERENCE_SAMPLES_def)
  next
    case new
    have "nth_label (length ?reg) \<notin> fst ` set ?reg"
      using seq new(1) by (intro nth_label_fresh) simp_all
    then have "speaker_embeddings s' = ?reg @ [(nth_label (length ?reg), [e])]"
      using new(2) by (simp add: dict_set_new)
    then show ?thesis
      using seq new(1) refs sequential_labels_snoc [OF seq, of "[e]"]
      by (simp add: registry_inv_def MAX_SPEAKERS_def MAX_REFERENCE_SAMPLES_def)
  qed
qed

lemma reachable_inv: "reachable np s \<Longrightarrow> registry_inv s"
proof (induction rule: reachable.induct)
  case start
  show ?case
    by (simp add: registry_inv_def init_state_def sequential_labels_def)
next
  case (attribute s embedding label s')
  then show ?case by (blast intro: registry_inv_step)
next
  case (reset s)
  show ?case
    by (simp add: registry_inv_def reset_speakers_def sequential_labels_def)
qed

text \<open>
  Claim C4. In every state reached from the initial one by calls of \<open>detect_speaker\<close> and
  \<open>reset_speakers\<close>, the registry holds at most ten identities and every reference set
  at most ten embeddings; and when a call attributes an embedding to an identity whose
  reference set is full, the registry is left exactly as it was: the embedding is dropped and
  no old sample is replaced.
\<close>

theorem registry_bounded:
  assumes "reachable np s"
  shows "length (speaker_embeddings s) \<le> MAX_SPEAKERS
    \<and> (\<forall>p \<in> set (speaker_embeddings s). length (snd p) \<le> MAX_REFERENCE_SAMPLES)
    \<and> (\<forall>e k refs s'.
          detect_speaker np (Some e) s = Inr (Some k, s')
          \<and> dict_get (speaker_embeddings s) k = Some refs
          \<and> length refs = MAX_REFERENCE_SAMPLES
          \<longrightarrow> speaker_embeddings s' = speaker_embeddings s)"
proof -
  let ?reg = "speaker_embeddings s"
  have inv: "registry_inv s"
    using assms by (rule reachable_inv)
  then have seq: "sequential_labels ?reg" and len: "length ?reg \<le> 10"
    by (simp_all add: registry_inv_def MAX_SPEAKERS_def)
  have full: "speaker_embeddings s' = ?reg"
    if call: "detect_speaker np (Some e) s = Inr (Some k, s')"
      and k: "dict_get ?reg k = Some refs" and ten: "length refs = 10"
    for e k refs s'
  proof -
    have known: "k \<in> fst ` set ?reg"
      using k by (rule dict_get_key)
    have "nth_label (length ?reg) \<notin> fst ` set ?reg"
      using seq len by (intro nth_label_fresh) simp_all
    with known have "k \<noteq> nth_label (length ?reg)" by blast
    with detect_speaker_branches [OF call] k ten show ?thesis
      by auto
  qed
  from inv have "\<forall>p \<in> set ?reg. length (snd p) \<le> MAX_REFERENCE_SAMPLES"
    by (simp add: registry_inv_def list_all_iff)
  with inv full show ?thesis
    by (simp add: registry_inv_def MAX_REFERENCE_SAMPLES_def) blast
qed

section \<open>A new identity\<close>

text \<open>
  Claim C2. In a non-empty registry with fewer than ten identities, when no identity's score
  (the mean similarity as numpy computes it) reaches \<open>SIMILARITY_THRESHOLD\<close>,
  \<open>detect_speaker\<close> returns the label \<open>chr(ord('A') + n)\<close> for the registry size \<open>n\<close>, stores
  under it the reference set holding this embedding alone and makes it the current speaker.
  In a reachable state that label is not in use, so the identity is new and goes to the end
  of the registry.
\<close>

theorem attribute_new:
  assumes nonempty: "speaker_embeddings s \<noteq> []"
    and room: "length (speaker_embeddings s) < MAX_SPEAKERS"
    and below: "all_below np e (speaker_embeddings s) (Num SIMILARITY_THRESHOLD)"
  shows "detect_speaker np (Some e) s =
           Inr (Some (nth_label (length (speaker_embeddings s))),
                s\<lparr>speaker_embeddings :=
                    dict_set (speaker_embeddings s) (nth_label (length (speaker_embeddings s))) [e],
                  current_speaker := nth_label (length (speaker_embeddings s))\<rparr>)
         \<and> dict_get (dict_set (speaker_embeddings s) (nth_label (length (speaker_embeddings s))) [e])
              (nth_label (length (speaker_embeddings s))) = Some [e]
         \<and> (reachable np s \<longrightarrow>
              dict_set (speaker_embeddings s) (nth_label (length (speaker_embeddings s))) [e]
                = speaker_embeddings s @ [(nth_label (length (speaker_embeddings s)), [e])])"
proof -
  let ?reg = "speaker_embeddings s"
  let ?new = "nth_label (length ?reg)"
  have start: "\<not> py_ge (Num (- 1)) (Num SIMILARITY_THRESHOLD)"
    using threshold_gt by simp
  from best_match_below [OF below start, of None]
  obtain bs m where scan: "best_match np e ?reg (None, Num (- 1)) = Inr (bs, m)"
    and m: "\<not> py_ge m (Num SIMILARITY_THRESHOLD)"
    by blast
  have call: "detect_speaker np (Some e) s =
      Inr (Some ?new, s\<lparr>speaker_embeddings := dict_set ?reg ?new [e], current_speaker := ?new\<rparr>)"
    using nonempty room m
    by (simp add: detect_speaker_def scan py_chr_label MAX_SPEAKERS_def)
  have fresh: "dict_set ?reg ?new [e] = ?reg @ [(?new, [e])]" if "reachable np s"
  proof -
    have "sequential_labels ?reg"
      using reachable_inv [OF that] by (simp add: registry_inv_def)
    then have "?new \<notin> fst ` set ?reg"
      using room by (intro nth_label_fresh) (simp_all add: MAX_SPEAKERS_def)
    then show ?thesis by (simp add: dict_set_new)
  qed
  from call fresh show ?thesis
    by (simp add: dict_get_set)
qed

section \<open>The fallback at ten identities\<close>

lemma label_values:
  "[char_of (66 :: nat)] = ''B''"
  "[char_of (67 :: nat)] = ''C''"
  "[char_of (68 :: nat)] = ''D''"
  "[char_of (69 :: nat)] = ''E''"
  "[char_of (70 :: nat)] = ''F''"
  "[char_of (71 :: nat)] = ''G''"
  "[char_of (72 :: nat)] = ''H''"
  "[char_of (73 :: nat)] = ''I''"
  "[char_of (74 :: nat)] = ''J''"
  "[char_of (75 :: nat)] = ''K''"
  by code_simp+

lemma fallback_call:
  assumes full: "length (speaker_embeddings s) = MAX_SPEAKERS"
    and reg: "speaker_embeddings s = pre @ (b, refs) # post"
    and score: "avg_similarity np e refs = Inr (Num x)"
    and before: "all_below np e pre (Num x)"
    and after: "none_above np e post (Num x)"
    and low: "x < SIMILARITY_THRESHOLD"
    and seen: "- 1 < x"
  shows "detect_speaker np (Some e) s = Inr (Some b, s)"
proof -
  have "py_gt (Num x) (Num (- 1))"
    using seen by simp
  from best_match_winner [OF before score after this]
  have scan: "best_match np e (speaker_embeddings s) (None, Num (- 1)) = Inr (Some b, Num x)"
    by (simp add: reg)
  have label: "py_chr (py_ord_A + length (speaker_embeddings s)) = Inr ''K''"
    by (simp add: full MAX_SPEAKERS_def py_chr_def py_ord_A_def label_values)
  have cap: "\<not> length (speaker_embeddings s) < 10"
    by (simp add: full MAX_SPEAKERS_def)
  have nonempty: "speaker_embeddings s \<noteq> []"
    by (simp add: reg)
  from low nonempty cap show ?thesis
    by (simp add: detect_speaker_def scan label)
qed

text \<open>
  Claim C10. With ten identities in the registry, let \<open>b\<close> be the best-scoring identity and
  let its score be below the threshold. \<open>detect_speaker\<close> returns \<open>b\<close> and leaves the
  current-speaker pointer as it was: a call with no embedding that follows returns the
  current speaker from before the fallback, whether or not that is \<open>b\<close>.
\<close>

theorem fallback_keeps_current:
  assumes full: "length (speaker_embeddings s) = MAX_SPEAKERS"
    and reg: "speaker_embeddings s = pre @ (b, refs) # post"
    and score: "avg_similarity np e refs = Inr (Num x)"
    and before: "all_below np e pre (Num x)"
    and after: "none_above np e post (Num x)"
    and low: "x < SIMILARITY_THRESHOLD"
    and seen: "- 1 < x"
  shows "\<exists>s'. detect_speaker np (Some e) s = Inr (Some b, s')
           \<and> current_speaker s' = current_speaker s
           \<and> detect_speaker np None s' = Inr (Some (current_speaker s), s')"
  using fallback_call [OF assms] by (simp add: detect_speaker_def)

section \<open>Arithmetic without rounding\<close>

text \<open>
  An implementation of the numpy parameters on vectors of reals that does not round: the
  arithmetic of the reals, with the results of IEEE 754 where a divisor is zero or an
  operand is an infinity or \<open>nan\<close>. It is not numpy. It serves to evaluate the model at
  inputs where the doubles do not round either, so that numpy computes the same values: in
  the runs below every entry is \<open>0\<close>, \<open>1\<close>, \<open>-1\<close> or \<open>1/2\<close>, and every sum, product, square
  root and quotient is an integer of absolute value at most ten or a multiple of \<open>1/4\<close>
  between \<open>-1\<close> and \<open>1\<close>, all of them doubles, or it is \<open>0 / 0\<close>.
\<close>

definition exact_dot :: "real list \<Rightarrow> real list \<Rightarrow> error + pyfloat" where
  "exact_dot a b =
     (if length a = length b then Inr (Num (sum_list (map2 (*) a b))) else Inl ValueError)"

definition exact_norm :: "real list \<Rightarrow> pyfloat" where
  "exact_norm a = Num (sqrt (sum_list (map (\<lambda>x. x * x) a)))"

fun exact_mul :: "pyfloat \<Rightarrow> pyfloat \<Rightarrow> pyfloat" where
  "exact_mul NaN y = NaN"
| "exact_mul x NaN = NaN"
| "exact_mul (Num a) (Num b) = Num (a * b)"
| "exact_mul (Num a) PInf = (if a = 0 then NaN else if a > 0 then PInf else NInf)"
| "exact_mul (Num a) NInf = (if a = 0 then NaN else if a > 0 then NInf else PInf)"
| "exact_mul PInf (Num b) = (if b = 0 then NaN else if b > 0 then PInf else NInf)"
| "exact_mul NInf (Num b) = (if b = 0 then NaN else if b > 0 then NInf else PInf)"
| "exact_mul PInf PInf = PInf"
| "exact_mul PInf NInf = NInf"
| "exact_mul NInf PInf = NInf"
| "exact_mul NInf NInf = PInf"

fun exact_div :: "pyfloat \<Rightarrow> pyfloat \<Rightarrow> pyfloat" where
  "exact_div NaN y = NaN"
| "exact_div x NaN = NaN"
| "exact_div (Num a) (Num b) =
     (if b = 0 then (if a = 0 then NaN else if a > 0 then PInf else NInf) else Num (a / b))"
| "exact_div (Num a) y = Num 0"
| "exact_div PInf (Num b) = (if b < 0 then NInf else PInf)"
| "exact_div NInf (Num b) = (if b < 0 then PInf else NInf)"
| "exact_div x y = NaN"

fun num_of :: "pyfloat \<Rightarrow> real" where
  "num_of (Num x) = x"
| "num_of y = 0"

definition exact_mean :: "pyfloat list \<Rightarrow> pyfloat" where
  "exact_mean xs =
     (if xs = [] \<or> NaN \<in> set xs \<or> (PInf \<in> set xs \<and> NInf \<in> set xs) then NaN
      else if PInf \<in> set xs then PInf
      else if NInf \<in> set xs then NInf
      else Num (sum_list (map num_of xs) / real (length xs)))"

definition exact_numpy :: "real list numpy" where
  "exact_numpy =
     \<lparr>np_dot = exact_dot, np_linalg_norm = exact_norm,
      float_mul = exact_mul, float_div = exact_div, np_mean = exact_mean\<rparr>"

text \<open>
  Without rounding, the score is that of the specification: the cosine similarity is the dot
  product over the product of the Euclidean norms, and an identity's score is the arithmetic
  mean of the cosine similarities with its reference embeddings, for vectors of the
  dimension of the new embedding none of which is the zero vector.
\<close>

definition cos_sim :: "real list \<Rightarrow> real list \<Rightarrow> real" where
  "cos_sim a b =
     (\<Sum>(x, y) \<leftarrow> zip a b. x * y) / (sqrt (\<Sum>x \<leftarrow> a. x * x) * sqrt (\<Sum>y \<leftarrow> b. y * y))"

definition mean_cos_sim :: "real list \<Rightarrow> real list list \<Rightarrow> real" where
  "mean_cos_sim e refs = (\<Sum>r \<leftarrow> refs. cos_sim e r) / real (length refs)"

definition comparable :: "real list \<Rightarrow> real list list \<Rightarrow> bool" where
  "comparable e refs =
     (exact_norm e \<noteq> Num 0 \<and> refs \<noteq> []
      \<and> list_all (\<lambda>r. length r = length e \<and> exact_norm r \<noteq> Num 0) refs)"

lemma cosine_cos_sim:
  "length r = length e \<Longrightarrow> exact_norm e \<noteq> Num 0 \<Longrightarrow> exact_norm r \<noteq> Num 0 \<Longrightarrow>
   cosine exact_numpy e r = Inr (Num (cos_sim e r))"
  by (simp add: cosine_def exact_numpy_def exact_dot_def cos_sim_def exact_norm_def)

lemma similarities_cos_sim:
  "exact_norm e \<noteq> Num 0 \<Longrightarrow>
   list_all (\<lambda>r. length r = length e \<and> exact_norm r \<noteq> Num 0) refs \<Longrightarrow>
   similarities exact_numpy e refs = Inr (map (\<lambda>r. Num (cos_sim e r)) refs)"
  by (induction refs) (simp_all add: cosine_cos_sim)

lemma exact_mean_Num:
  "xs \<noteq> [] \<Longrightarrow> exact_mean (map Num xs) = Num (sum_list xs / real (length xs))"
  by (auto simp: exact_mean_def comp_def)

lemma avg_similarity_mean:
  assumes "comparable e refs"
  shows "avg_similarity exact_numpy e refs = Inr (Num (mean_cos_sim e refs))"
proof -
  from assms have sims: "similarities exact_numpy e refs = Inr (map Num (map (cos_sim e) refs))"
    by (simp add: comparable_def similarities_cos_sim comp_def)
  from assms have "map (cos_sim e) refs \<noteq> []"
    by (simp add: comparable_def)
  from exact_mean_Num [OF this] sims show ?thesis
    by (simp add: avg_similarity_def exact_numpy_def mean_cos_sim_def)
qed

section \<open>Concrete runs\<close>

text \<open>
  \<open>run\<close> feeds a sequence of embeddings to \<open>detect_speaker\<close>. A call that raises does so
  before its first assignment and leaves the state.
\<close>

fun run :: "'e numpy \<Rightarrow> 'e option list \<Rightarrow> 'e state \<Rightarrow> 'e state" where
  "run np [] s = s"
| "run np (x # xs) s =
     (case detect_speaker np x s of
        Inl err \<Rightarrow> run np xs s
      | Inr (label, s') \<Rightarrow> run np xs s')"

lemma reachable_run: "reachable np s \<Longrightarrow> reachable np (run np xs s)"
proof (induction xs arbitrary: s)
  case Nil
  then show ?case by simp
next
  case (Cons x xs)
  then show ?case
    by (cases "detect_speaker np x s") (auto intro: reachable.attribute)
qed

lemma py_chr_values:
  "py_chr (Suc py_ord_A) = Inr ''B''"
  "py_chr (Suc (Suc py_ord_A)) = Inr ''C''"
  "py_chr (Suc (Suc (Suc py_ord_A))) = Inr ''D''"
  "py_chr (Suc (Suc (Suc (Suc py_ord_A)))) = Inr ''E''"
  "py_chr (Suc (Suc (Suc (Suc (Suc py_ord_A))))) = Inr ''F''"
  "py_chr (Suc (Suc (Suc (Suc (Suc (Suc py_ord_A)))))) = Inr ''G''"
  "py_chr (Suc (Suc (Suc (Suc (Suc (Suc (Suc py_ord_A))))))) = Inr ''H''"
  "py_chr (Suc (Suc (Suc (Suc (Suc (Suc (Suc (Suc py_ord_A)))))))) = Inr ''I''"
  "py_chr (Suc (Suc (Suc (Suc (Suc (Suc (Suc (Suc (Suc py_ord_A))))))))) = Inr ''J''"
  "py_chr (Suc (Suc (Suc (Suc (Suc (Suc (Suc (Suc (Suc (Suc py_ord_A)))))))))) = Inr ''K''"
  by (simp_all add: py_chr_def py_ord_A_def label_values)

lemmas score_eval =
  avg_similarity_def cosine_def exact_numpy_def exact_dot_def exact_norm_def exact_mean_def

lemmas call_eval =
  detect_speaker_def score_eval py_chr_values SIMILARITY_THRESHOLD_def




text \<open>After one speaker, an orthogonal embedding opens the identity B.\<close>

definition one_speaker :: "real list state" where
  "one_speaker = \<lparr>speaker_embeddings = [(''A'', [[1, 0]])], current_speaker = ''A''\<rparr>"

lemma run_one_speaker: "run exact_numpy [Some [1, 0]] init_state = one_speaker"
  by (simp add: init_state_def one_speaker_def call_eval)

theorem attribute_new_witness:
  "reachable exact_numpy one_speaker
   \<and> detect_speaker exact_numpy (Some [0, 1]) one_speaker
     = Inr (Some ''B'',
          \<lparr>speaker_embeddings = [(''A'', [[1, 0]]), (''B'', [[0, 1]])], current_speaker = ''B''\<rparr>)"
proof -
  have reach: "reachable exact_numpy one_speaker"
    using reachable_run [OF reachable.start, of exact_numpy "[Some [1, 0]]"]
    by (simp only: run_one_speaker)
  have nonempty: "speaker_embeddings one_speaker \<noteq> []"
    by (simp add: one_speaker_def)
  have room: "length (speaker_embeddings one_speaker) < MAX_SPEAKERS"
    by (simp add: one_speaker_def MAX_SPEAKERS_def)
  have below: "all_below exact_numpy [0, 1] (speaker_embeddings one_speaker)
      (Num SIMILARITY_THRESHOLD)"
    by (simp add: one_speaker_def all_below_def score_eval SIMILARITY_THRESHOLD_def)
  have label: "nth_label (Suc 0) = ''B''"
    by (simp add: nth_label_def py_ord_A_def label_values)
  from attribute_new [OF nonempty room below] reach
  show ?thesis
    by (simp add: one_speaker_def label)
qed

text \<open>
  Speaker A has been heard ten times, then speaker B once. An eleventh sample of A is
  attributed to A and dropped.
\<close>

definition ten_samples :: "real list state" where
  "ten_samples =
     \<lparr>speaker_embeddings =
        [(''A'', [[1, 0], [1, 0], [1, 0], [1, 0], [1, 0], [1, 0], [1, 0], [1, 0], [1, 0], [1, 0]]),
         (''B'', [[0, 1]])],
      current_speaker = ''B''\<rparr>"

lemma run_ten_samples:
  "run exact_numpy
     [Some [1, 0],
        Some [1, 0],
        Some [1, 0],
        Some [1, 0],
        Some [1, 0],
        Some [1, 0],
        Some [1, 0],
        Some [1, 0],
        Some [1, 0],
        Some [1, 0],
        Some [0, 1]]
     init_state = ten_samples"
  by (simp add: init_state_def ten_samples_def call_eval)

lemma eleventh_sample:
  "detect_speaker exact_numpy (Some [1, 0]) ten_samples
     = Inr (Some ''A'', ten_samples\<lparr>current_speaker := ''A''\<rparr>)"
  by (simp add: ten_samples_def call_eval)

theorem registry_bounded_witness:
  "reachable exact_numpy ten_samples
   \<and> length (speaker_embeddings ten_samples) \<le> MAX_SPEAKERS
   \<and> length [[1, 0], [1, 0], [1, 0], [1, 0], [1, 0], [1, 0], [1, 0], [1, 0], [1, 0], [1, 0] :: real list] \<le> MAX_REFERENCE_SAMPLES
   \<and> detect_speaker exact_numpy (Some [1, 0]) ten_samples
       = Inr (Some ''A'', ten_samples\<lparr>current_speaker := ''A''\<rparr>)
   \<and> speaker_embeddings (ten_samples\<lparr>current_speaker := ''A''\<rparr>) = speaker_embeddings ten_samples"
proof -
  have reach: "reachable exact_numpy ten_samples"
    using reachable_run [OF reachable.start] by (simp only: run_ten_samples [symmetric])
  have full: "dict_get (speaker_embeddings ten_samples) ''A''
      = Some [[1, 0], [1, 0], [1, 0], [1, 0], [1, 0], [1, 0], [1, 0], [1, 0], [1, 0], [1, 0]]"
    by (simp add: ten_samples_def)
  have ten: "length [[1, 0], [1, 0], [1, 0], [1, 0], [1, 0], [1, 0], [1, 0], [1, 0], [1, 0], [1, 0] :: real list] = MAX_REFERENCE_SAMPLES"
    by (simp add: MAX_REFERENCE_SAMPLES_def)
  from registry_bounded [OF reach]
  have size: "length (speaker_embeddings ten_samples) \<le> MAX_SPEAKERS"
    and sets: "\<forall>p \<in> set (speaker_embeddings ten_samples). length (snd p) \<le> MAX_REFERENCE_SAMPLES"
    and kept: "speaker_embeddings (ten_samples\<lparr>current_speaker := ''A''\<rparr>)
      = speaker_embeddings ten_samples"
    using eleventh_sample full ten by blast+
  from sets
  have "length [[1, 0], [1, 0], [1, 0], [1, 0], [1, 0], [1, 0], [1, 0], [1, 0], [1, 0], [1, 0] :: real list] \<le> MAX_REFERENCE_SAMPLES"
    by (simp add: ten_samples_def)
  with reach size eleventh_sample kept show ?thesis
    by blast
qed

text \<open>
  Ten speakers with pairwise orthogonal embeddings, J the last one heard. An embedding at
  similarity \<open>1/2\<close> to A, B, C and D falls back to A, and the current speaker stays J.
\<close>

definition ten_speakers :: "real list state" where
  "ten_speakers =
     \<lparr>speaker_embeddings =
        [(''A'', [[1, 0, 0, 0, 0, 0, 0, 0, 0, 0]]),
         (''B'', [[0, 1, 0, 0, 0, 0, 0, 0, 0, 0]]),
         (''C'', [[0, 0, 1, 0, 0, 0, 0, 0, 0, 0]]),
         (''D'', [[0, 0, 0, 1, 0, 0, 0, 0, 0, 0]]),
         (''E'', [[0, 0, 0, 0, 1, 0, 0, 0, 0, 0]]),
         (''F'', [[0, 0, 0, 0, 0, 1, 0, 0, 0, 0]]),
         (''G'', [[0, 0, 0, 0, 0, 0, 1, 0, 0, 0]]),
         (''H'', [[0, 0, 0, 0, 0, 0, 0, 1, 0, 0]]),
         (''I'', [[0, 0, 0, 0, 0, 0, 0, 0, 1, 0]]),
         (''J'', [[0, 0, 0, 0, 0, 0, 0, 0, 0, 1]])],
      current_speaker = ''J''\<rparr>"

lemma run_ten_speakers:
  "run exact_numpy
     [Some [1, 0, 0, 0, 0, 0, 0, 0, 0, 0],
        Some [0, 1, 0, 0, 0, 0, 0, 0, 0, 0],
        Some [0, 0, 1, 0, 0, 0, 0, 0, 0, 0],
        Some [0, 0, 0, 1, 0, 0, 0, 0, 0, 0],
        Some [0, 0, 0, 0, 1, 0, 0, 0, 0, 0],
        Some [0, 0, 0, 0, 0, 1, 0, 0, 0, 0],
        Some [0, 0, 0, 0, 0, 0, 1, 0, 0, 0],
        Some [0, 0, 0, 0, 0, 0, 0, 1, 0, 0],
        Some [0, 0, 0, 0, 0, 0, 0, 0, 1, 0],
        Some [0, 0, 0, 0, 0, 0, 0, 0, 0, 1]]
     init_state = ten_speakers"
  by (simp add: init_state_def ten_speakers_def call_eval)

theorem fallback_keeps_current_witness:
  "reachable exact_numpy ten_speakers
   \<and> current_speaker ten_speakers = ''J''
   \<and> detect_speaker exact_numpy (Some [1 / 2, 1 / 2, 1 / 2, 1 / 2, 0, 0, 0, 0, 0, 0]) ten_speakers
       = Inr (Some ''A'', ten_speakers)
   \<and> detect_speaker exact_numpy None ten_speakers = Inr (Some ''J'', ten_speakers)
   \<and> ''A'' \<noteq> ''J''"
proof -
  let ?e = "[1 / 2, 1 / 2, 1 / 2, 1 / 2, 0, 0, 0, 0, 0, 0] :: real list"
  let ?post = "[(''B'', [[0, 1, 0, 0, 0, 0, 0, 0, 0, 0]]),
         (''C'', [[0, 0, 1, 0, 0, 0, 0, 0, 0, 0]]),
         (''D'', [[0, 0, 0, 1, 0, 0, 0, 0, 0, 0]]),
         (''E'', [[0, 0, 0, 0, 1, 0, 0, 0, 0, 0]]),
         (''F'', [[0, 0, 0, 0, 0, 1, 0, 0, 0, 0]]),
         (''G'', [[0, 0, 0, 0, 0, 0, 1, 0, 0, 0]]),
         (''H'', [[0, 0, 0, 0, 0, 0, 0, 1, 0, 0]]),
         (''I'', [[0, 0, 0, 0, 0, 0, 0, 0, 1, 0]]),
         (''J'', [[0, 0, 0, 0, 0, 0, 0, 0, 0, 1]])]"
  have reach: "reachable exact_numpy ten_speakers"
    using reachable_run [OF reachable.start] by (simp only: run_ten_speakers [symmetric])
  have full: "length (speaker_embeddings ten_speakers) = MAX_SPEAKERS"
    by (simp add: ten_speakers_def MAX_SPEAKERS_def)
  have reg: "speaker_embeddings ten_speakers = [] @ (''A'', [[1, 0, 0, 0, 0, 0, 0, 0, 0, 0]]) # ?post"
    by (simp add: ten_speakers_def)
  have score: "avg_similarity exact_numpy ?e [[1, 0, 0, 0, 0, 0, 0, 0, 0, 0]] = Inr (Num (1 / 2))"
    by (simp add: score_eval)
  have before: "all_below exact_numpy ?e [] (Num (1 / 2))"
    by (simp add: all_below_def)
  have after: "none_above exact_numpy ?e ?post (Num (1 / 2))"
    by (simp add: none_above_def score_eval)
  have low: "1 / 2 < SIMILARITY_THRESHOLD"
    by (simp add: SIMILARITY_THRESHOLD_def)
  have seen: "- 1 < (1 / 2 :: real)"
    by simp
  from fallback_keeps_current [OF full reg score before after low seen]
  obtain s' where call: "detect_speaker exact_numpy (Some ?e) ten_speakers = Inr (Some ''A'', s')"
    and after_call: "detect_speaker exact_numpy None s'
      = Inr (Some (current_speaker ten_speakers), s')"
    by blast
  have same: "s' = ten_speakers"
    using call by (simp add: ten_speakers_def call_eval)
  have cur: "current_speaker ten_speakers = ''J''"
    by (simp add: ten_speakers_def)
  from reach call after_call same cur show ?thesis
    by simp
qed

text \<open>
  One speaker with the embedding \<open>[1]\<close>, then nine all-zero embeddings: the cosine with a
  zero vector is \<open>0 / 0\<close>, no comparison with \<open>nan\<close> holds, and each call opens an
  identity until the registry is full. The run depends on four scores only, and it is the
  same for every implementation of numpy that computes them as below; IEEE arithmetic
  does, since \<open>0 * 1\<close>, \<open>1 * 1\<close>, \<open>-1 * 1\<close>, \<open>sqrt 0\<close>, \<open>sqrt 1\<close>, \<open>-1 / 1\<close> and the mean of a
  single number are exact and \<open>0 / 0\<close> is \<open>nan\<close>.
\<close>

definition one_voice_nine_silent :: "real list state" where
  "one_voice_nine_silent =
     \<lparr>speaker_embeddings =
        [(''A'', [[1]]),
         (''B'', [[0]]),
         (''C'', [[0]]),
         (''D'', [[0]]),
         (''E'', [[0]]),
         (''F'', [[0]]),
         (''G'', [[0]]),
         (''H'', [[0]]),
         (''I'', [[0]]),
         (''J'', [[0]])],
      current_speaker = ''J''\<rparr>"

lemma nine_silent_any_numpy:
  fixes np :: "real list numpy"
  assumes "avg_similarity np [0] [[1]] = Inr NaN"
    and "avg_similarity np [0] [[0]] = Inr NaN"
    and "avg_similarity np [- 1] [[1]] = Inr (Num (- 1))"
    and "avg_similarity np [- 1] [[0]] = Inr NaN"
  shows "run np [Some [1], Some [0], Some [0], Some [0], Some [0], Some [0], Some [0], Some [0], Some [0], Some [0]]
           init_state = one_voice_nine_silent"
    and "detect_speaker np (Some [- 1]) one_voice_nine_silent = Inr (None, one_voice_nine_silent)"
  by (simp_all add: init_state_def one_voice_nine_silent_def detect_speaker_def assms
      py_chr_values SIMILARITY_THRESHOLD_def)

lemma nine_silent_scores:
  "avg_similarity exact_numpy [0] [[1]] = Inr NaN"
  "avg_similarity exact_numpy [0] [[0]] = Inr NaN"
  "avg_similarity exact_numpy [- 1] [[1]] = Inr (Num (- 1))"
  "avg_similarity exact_numpy [- 1] [[0]] = Inr NaN"
  by (simp_all add: score_eval)

lemma nine_silent_below:
  "all_below exact_numpy [- 1] (speaker_embeddings one_voice_nine_silent)
     (Num SIMILARITY_THRESHOLD)"
  by (simp add: one_voice_nine_silent_def all_below_def nine_silent_scores
      SIMILARITY_THRESHOLD_def)

text \<open>
  Claim C3, at an input where the code departs from it. In the full registry above, the
  embedding \<open>[-1]\<close> has mean similarity \<open>-1\<close> with A, which is below the threshold and
  the only score that is a number (\<open>nine_silent_below\<close>). The loop starts from
  \<open>best_similarity = -1\<close> and compares with \<open>>\<close>, so \<open>best_speaker\<close> stays \<open>None\<close>,
  and that is what the call returns, not the label A. No identity is created and the
  registry keeps its ten identities, as the claim says; and whenever some mean similarity
  exceeds \<open>-1\<close>, the label returned is the best-scoring one (\<open>fallback_call\<close>).
\<close>

theorem fallback_returns_no_label:
  "reachable exact_numpy one_voice_nine_silent
   \<and> length (speaker_embeddings one_voice_nine_silent) = MAX_SPEAKERS
   \<and> avg_similarity exact_numpy [- 1] [[1]] = Inr (Num (- 1))
   \<and> detect_speaker exact_numpy (Some [- 1]) one_voice_nine_silent
       = Inr (None, one_voice_nine_silent)"
proof -
  note run = nine_silent_any_numpy [OF nine_silent_scores]
  have reach: "reachable exact_numpy one_voice_nine_silent"
    using reachable_run [OF reachable.start] by (simp only: run(1) [symmetric])
  have full: "length (speaker_embeddings one_voice_nine_silent) = MAX_SPEAKERS"
    by (simp add: one_voice_nine_silent_def MAX_SPEAKERS_def)
  from reach full nine_silent_scores(3) run(2) show ?thesis
    by blast
qed

section \<open>The chunk pipeline (lines 69-122 and 178-225)\<close>

text \<open>
  The collaborators of the pipeline are parameters: the loaded models and the library
  functions it calls, each returning its result or the exception it raises.
  \<open>voice_encoder\<close> is \<open>None\<close> when Resemblyzer could not be loaded (line 58), and else
  holds \<open>embed_utterance\<close>. An audio file is its bytes; the temporary file that carries
  them from \<open>transcribe_audio\<close> to the decoders is assumed to be written, read and removed
  without error. A text of the transcription is a Python string, the list of its code
  points.
\<close>

type_synonym waveform = "real list"

type_synonym pystr = "nat list"

record 'e environment =
  is_ready :: bool
  voice_encoder :: "(waveform \<Rightarrow> error + 'e) option"
  b64decode :: "string \<Rightarrow> error + string"
  decode_audio :: "string \<Rightarrow> error + waveform"
  preprocess_wav :: "waveform \<Rightarrow> error + waveform"
  speech_to_text :: "waveform \<Rightarrow> string option \<Rightarrow> error + (pystr list \<times> string)"

definition load_audio_for_embedding :: "'e environment \<Rightarrow> string \<Rightarrow> waveform option" where
  "load_audio_for_embedding env audio =
     (case decode_audio env audio of
        Inl err \<Rightarrow> None
      | Inr wav \<Rightarrow> Some wav)"

definition get_voice_embedding :: "'e environment \<Rightarrow> string \<Rightarrow> 'e option" where
  "get_voice_embedding env audio =
     (case voice_encoder env of
        None \<Rightarrow> None
      | Some embed_utterance \<Rightarrow>
          (case load_audio_for_embedding env audio of
             None \<Rightarrow> None
           | Some wav \<Rightarrow>
               if length wav < 1600 then None
               else
                 (case preprocess_wav env wav of
                    Inl err \<Rightarrow> None
                  | Inr wav' \<Rightarrow>
                      if length wav' < 1600 then None
                      else
                        (case embed_utterance wav' of
                           Inl err \<Rightarrow> None
                         | Inr embedding \<Rightarrow> Some embedding))))"

text \<open>
  Modelled from the spec: \<open>whisper_model.transcribe\<close>, called at line 202 on the path of the
  temporary file, belongs to the faster-whisper library and is not in the repository. By
  sections 4.2 and 6 of the specification the chunk is first decoded to a waveform by the
  decoder, which is the one \<open>load_audio_for_embedding\<close> uses (line 72); a decoding failure
  yields no waveform, and the speech-to-text model consumes the waveform. The second
  component of its result is \<open>info.language\<close>.
\<close>

definition whisper_transcribe ::
  "'e environment \<Rightarrow> string \<Rightarrow> string option \<Rightarrow> error + (pystr list \<times> string)"
where
  "whisper_transcribe env audio language =
     (case decode_audio env audio of
        Inl err \<Rightarrow> Inl err
      | Inr wav \<Rightarrow> speech_to_text env wav language)"

text \<open>
  \<open>str.strip\<close> and \<open>" ".join\<close> (lines 210-211). The whitespace of Python strings, by code
  point: U+0009 to U+000D, U+001C to U+0020, U+0085, U+00A0, U+1680, U+2000 to U+200A,
  U+2028, U+2029, U+202F, U+205F and U+3000.
\<close>

definition is_space :: "nat \<Rightarrow> bool" where
  "is_space c =
     (9 \<le> c \<and> c \<le> 13 \<or> 28 \<le> c \<and> c \<le> 32 \<or> c = 133 \<or> c = 160 \<or> c = 5760
      \<or> 8192 \<le> c \<and> c \<le> 8202 \<or> c = 8232 \<or> c = 8233 \<or> c = 8239 \<or> c = 8287
      \<or> c = 12288)"

definition py_strip :: "pystr \<Rightarrow> pystr" where
  "py_strip s = rev (dropWhile is_space (rev (dropWhile is_space s)))"

fun join_space :: "pystr list \<Rightarrow> pystr" where
  "join_space [] = []"
| "join_space [x] = x"
| "join_space (x # y # ys) = x @ [32] @ join_space (y # ys)"

text \<open>\<open>str(e)\<close>; the wording of numpy's and Python's own messages is not modelled.\<close>

fun str_of :: "error \<Rightarrow> string" where
  "str_of ValueError = ''ValueError''"
| "str_of KeyError = ''KeyError''"
| "str_of (External msg) = msg"

record chunk_result =
  text' :: pystr
  speaker :: "string option"
  language :: string
  total_speakers :: nat

datatype response = Error string | Result chunk_result

text \<open>
  \<open>transcribe_audio\<close> returns the response and the state it leaves. An exception of
  \<open>detect_speaker\<close> is raised before its first assignment, and one of the transcription
  after \<open>detect_speaker\<close> has returned.
\<close>

definition transcribe_audio ::
  "'e numpy \<Rightarrow> 'e environment \<Rightarrow> string \<Rightarrow> string \<Rightarrow> 'e state \<Rightarrow> response \<times> 'e state"
where
  "transcribe_audio np env audio_base64 lang s =
     (if \<not> is_ready env then (Error ''Modelo no cargado'', s)
      else
        (case b64decode env audio_base64 of
           Inl err \<Rightarrow> (Error (str_of err), s)
         | Inr audio_data \<Rightarrow>
             (case (case voice_encoder env of
                      None \<Rightarrow> Inr (None, s)
                    | Some encoder \<Rightarrow> detect_speaker np (get_voice_embedding env audio_data) s) of
                Inl err \<Rightarrow> (Error (str_of err), s)
              | Inr (label, s') \<Rightarrow>
                  (case whisper_transcribe env audio_data
                          (if lang \<noteq> ''auto'' then Some lang else None) of
                     Inl err \<Rightarrow> (Error (str_of err), s')
                   | Inr (segments, info_language) \<Rightarrow>
                       (Result \<lparr>text' = join_space (map py_strip segments),
                                speaker = label,
                                language = info_language,
                                total_speakers = length (speaker_embeddings s')\<rparr>,
                        s')))))"

text \<open>
  The calls of \<open>detect_speaker\<close> that \<open>transcribe_audio\<close> makes, by their argument: the one
  of line 199, reached when the models are ready, the payload is decoded from base64 and
  \<open>voice_encoder\<close> is loaded (line 197).
\<close>

definition attribution_calls :: "'e environment \<Rightarrow> string \<Rightarrow> 'e option list" where
  "attribution_calls env audio_base64 =
     (if \<not> is_ready env then []
      else
        (case b64decode env audio_base64 of
           Inl err \<Rightarrow> []
         | Inr audio_data \<Rightarrow>
             (case voice_encoder env of
                None \<Rightarrow> []
              | Some encoder \<Rightarrow> [get_voice_embedding env audio_data])))"

lemma get_voice_embedding_undecodable:
  "decode_audio env audio = Inl err \<Longrightarrow> get_voice_embedding env audio = None"
  by (simp add: get_voice_embedding_def load_audio_for_embedding_def split: option.splits)

text \<open>
  A payload that is valid base64, \<open>b64decode\<close> at that payload, and the four bytes it
  stands for: the first bytes of a WebM file, which no decoder can decode.
\<close>

definition webm_payload :: string where
  "webm_payload = ''GkXfow==''"

definition webm_bytes :: string where
  "webm_bytes = [CHR 0x1A, CHR 0x45, CHR 0xDF, CHR 0xA3]"

definition b64decode_at_payload :: "string \<Rightarrow> error + string" where
  "b64decode_at_payload payload =
     (if payload = webm_payload then Inr webm_bytes else Inl (External ''Incorrect padding''))"

definition undecodable_env :: "real list environment" where
  "undecodable_env =
     \<lparr>is_ready = True,
      voice_encoder = Some (\<lambda>wav. Inr [1, 0]),
      b64decode = b64decode_at_payload,
      decode_audio = (\<lambda>audio. Inl (External ''Invalid data found when processing input'')),
      preprocess_wav = (\<lambda>wav. Inr wav),
      speech_to_text = (\<lambda>wav l. Inr ([], ''es''))\<rparr>"

text \<open>
  Claim C8 as it is stated says that no speaker attribution is attempted for a chunk that
  cannot be decoded. With a voice encoder loaded, \<open>transcribe_audio\<close> does call
  \<open>detect_speaker\<close> for such a chunk, with no embedding (lines 197-199).
\<close>

theorem decode_failure_counterexample:
  "is_ready undecodable_env
   \<and> b64decode undecodable_env webm_payload = Inr webm_bytes
   \<and> decode_audio undecodable_env webm_bytes
       = Inl (External ''Invalid data found when processing input'')
   \<and> attribution_calls undecodable_env webm_payload = [None]
   \<and> attribution_calls undecodable_env webm_payload \<noteq> []"
  by (simp add: undecodable_env_def b64decode_at_payload_def attribution_calls_def
      get_voice_embedding_def load_audio_for_embedding_def)

text \<open>
  Claim C8, amended. When the audio of a chunk cannot be decoded, the pipeline returns an
  error result and leaves the registry and the current speaker as they were; in particular
  the registry size is unchanged. Attribution is still called when the models are ready
  and a voice encoder is loaded, once and with no embedding: \<open>detect_speaker\<close> then takes
  its first branch, attributes nothing and returns the current speaker.
\<close>

theorem decode_failure:
  assumes payload: "b64decode env audio_base64 = Inr audio"
    and undecodable: "decode_audio env audio = Inl err"
  shows "(\<exists>msg. transcribe_audio np env audio_base64 lang s = (Error msg, s))
    \<and> attribution_calls env audio_base64
        = (if is_ready env \<and> voice_encoder env \<noteq> None then [None] else [])
    \<and> detect_speaker np None s = Inr (Some (current_speaker s), s)"
proof -
  have none: "get_voice_embedding env audio = None"
    using undecodable by (rule get_voice_embedding_undecodable)
  have stt: "whisper_transcribe env audio l = Inl err" for l
    using undecodable by (simp add: whisper_transcribe_def)
  have failed: "\<exists>msg. transcribe_audio np env audio_base64 lang s = (Error msg, s)"
  proof (cases "voice_encoder env")
    case None
    then show ?thesis
      by (simp add: transcribe_audio_def payload stt)
  next
    case (Some encoder)
    then show ?thesis
      by (simp add: transcribe_audio_def payload stt none detect_speaker_def)
  qed
  have calls: "attribution_calls env audio_base64
      = (if is_ready env \<and> voice_encoder env \<noteq> None then [None] else [])"
    by (auto simp: attribution_calls_def payload none split: option.splits)
  from failed calls show ?thesis
    by (simp add: detect_speaker_def)
qed

lemma payload_failure:
  "b64decode env audio_base64 = Inl err \<Longrightarrow>
   \<exists>msg. transcribe_audio np env audio_base64 lang s = (Error msg, s)"
  by (simp add: transcribe_audio_def)

theorem decode_failure_witness:
  "transcribe_audio exact_numpy undecodable_env webm_payload ''es'' one_speaker
       = (Error ''Invalid data found when processing input'', one_speaker)
   \<and> length (speaker_embeddings
        (snd (transcribe_audio exact_numpy undecodable_env webm_payload ''es'' one_speaker)))
       = length (speaker_embeddings one_speaker)
   \<and> attribution_calls undecodable_env webm_payload = [None]
   \<and> detect_speaker exact_numpy None one_speaker = Inr (Some ''A'', one_speaker)"
proof -
  have payload: "b64decode undecodable_env webm_payload = Inr webm_bytes"
    by (simp add: undecodable_env_def b64decode_at_payload_def)
  have undecodable: "decode_audio undecodable_env webm_bytes
      = Inl (External ''Invalid data found when processing input'')"
    by (simp add: undecodable_env_def)
  from decode_failure [OF payload undecodable, of exact_numpy "''es''" one_speaker]
  obtain msg where
    failed: "transcribe_audio exact_numpy undecodable_env webm_payload ''es'' one_speaker
      = (Error msg, one_speaker)"
    and calls: "attribution_calls undecodable_env webm_payload
      = (if is_ready undecodable_env \<and> voice_encoder undecodable_env \<noteq> None then [None] else [])"
    and echo: "detect_speaker exact_numpy None one_speaker
      = Inr (Some (current_speaker one_speaker), one_speaker)"
    by blast
  have msg: "transcribe_audio exact_numpy undecodable_env webm_payload ''es'' one_speaker
      = (Error ''Invalid data found when processing input'', one_speaker)"
    by (simp add: transcribe_audio_def undecodable_env_def b64decode_at_payload_def
        get_voice_embedding_def load_audio_for_embedding_def whisper_transcribe_def
        detect_speaker_def)
  have loaded: "is_ready undecodable_env \<and> voice_encoder undecodable_env \<noteq> None"
    by (simp add: undecodable_env_def)
  from msg calls loaded echo show ?thesis
    by (simp add: one_speaker_def)
qed

text \<open>
  Claim C9, amended. When the embedding model is absent, a chunk that is decoded and
  transcribed without error still yields a result with its text, language and speaker
  count, and the registry and the current speaker are left as they were; the guard at
  line 197 skips attribution altogether, so the result carries no speaker label
  (\<open>speaker\<close> is \<open>None\<close>), not the current speaker.
\<close>

theorem no_encoder_no_label:
  assumes ready: "is_ready env"
    and absent: "voice_encoder env = None"
    and payload: "b64decode env audio_base64 = Inr audio"
    and transcribed: "whisper_transcribe env audio (if lang \<noteq> ''auto'' then Some lang else None)
        = Inr (segments, info_language)"
  shows "transcribe_audio np env audio_base64 lang s =
           (Result \<lparr>text' = join_space (map py_strip segments),
                    speaker = None,
                    language = info_language,
                    total_speakers = length (speaker_embeddings s)\<rparr>,
            s)"
  using assms by (simp add: transcribe_audio_def)

text \<open>
  An environment without voice encoder in which the chunk is decoded and transcribed. The
  segments are \<^verbatim>\<open>" \xa0hola"\<close> and \<^verbatim>\<open>"mundo "\<close>, the first beginning with a space and a
  no-break space; the text is \<^verbatim>\<open>"hola mundo"\<close>. For claim C9 as it is stated,
  the result would carry the current speaker A; it carries no label.
\<close>

definition hola_segments :: "pystr list" where
  "hola_segments = [[32, 160, 104, 111, 108, 97], [109, 117, 110, 100, 111, 32]]"

definition hola_mundo :: pystr where
  "hola_mundo = [104, 111, 108, 97, 32, 109, 117, 110, 100, 111]"

definition no_encoder_env :: "real list environment" where
  "no_encoder_env =
     \<lparr>is_ready = True,
      voice_encoder = None,
      b64decode = b64decode_at_payload,
      decode_audio = (\<lambda>audio. Inr []),
      preprocess_wav = (\<lambda>wav. Inr wav),
      speech_to_text = (\<lambda>wav l. Inr (hola_segments, ''es''))\<rparr>"

lemma strip_hola: "join_space (map py_strip hola_segments) = hola_mundo"
  by (simp add: hola_segments_def hola_mundo_def py_strip_def is_space_def)

theorem no_encoder_counterexample:
  "is_ready no_encoder_env
   \<and> voice_encoder no_encoder_env = None
   \<and> transcribe_audio exact_numpy no_encoder_env webm_payload ''es'' one_speaker
       = (Result \<lparr>text' = hola_mundo, speaker = None, language = ''es'',
                  total_speakers = 1\<rparr>,
          one_speaker)
   \<and> speaker \<lparr>text' = hola_mundo, speaker = None, language = ''es'',
              total_speakers = 1\<rparr>
       \<noteq> Some (current_speaker one_speaker)"
proof -
  have "transcribe_audio exact_numpy no_encoder_env webm_payload ''es'' one_speaker
      = (Result \<lparr>text' = join_space (map py_strip hola_segments),
                 speaker = None, language = ''es'', total_speakers = 1\<rparr>,
         one_speaker)"
    by (simp add: transcribe_audio_def no_encoder_env_def b64decode_at_payload_def
        whisper_transcribe_def one_speaker_def)
  then show ?thesis
    by (simp add: strip_hola no_encoder_env_def)
qed

theorem no_encoder_no_label_witness:
  "transcribe_audio exact_numpy no_encoder_env webm_payload ''auto'' one_speaker
     = (Result \<lparr>text' = hola_mundo, speaker = None, language = ''es'',
                total_speakers = 1\<rparr>,
        one_speaker)"
proof -
  have ready: "is_ready no_encoder_env"
    and absent: "voice_encoder no_encoder_env = None"
    and payload: "b64decode no_encoder_env webm_payload = Inr webm_bytes"
    by (simp_all add: no_encoder_env_def b64decode_at_payload_def)
  have transcribed: "whisper_transcribe no_encoder_env webm_bytes
      (if ''auto'' \<noteq> ''auto'' then Some ''auto'' else None)
      = Inr (hola_segments, ''es'')"
    by (simp add: whisper_transcribe_def no_encoder_env_def)
  from no_encoder_no_label [OF ready absent payload transcribed, of exact_numpy one_speaker]
  show ?thesis
    by (simp add: strip_hola one_speaker_def)
qed

end
